theory Spec2Isabelle
  imports Complex_Main
begin

section \<open>Numbers and helpers (shared/utils/helpers.ts)\<close>

text \<open>
  The source computes with JavaScript numbers. The embedding takes them as exact
  rationals: \<open>Math.round x\<close> is \<open>\<lfloor>x + 1/2\<rfloor>\<close> (ties go up, towards plus
  infinity), \<open>Math.ceil\<close> is the ceiling. Object ids and dates are natural numbers;
  \<open>new Date()\<close>, generated references and the provider's answer are arguments of the
  operation that uses them.
\<close>

type_synonym ObjectId = nat
type_synonym Date = nat

definition Math_round :: "rat \<Rightarrow> rat" where
  "Math_round x = of_int \<lfloor>x + 1 / 2\<rfloor>"

definition Math_ceil :: "rat \<Rightarrow> rat" where
  "Math_ceil x = of_int \<lceil>x\<rceil>"

definition calculateSimpleInterest :: "rat \<Rightarrow> rat \<Rightarrow> nat \<Rightarrow> rat" where
  "calculateSimpleInterest principalAmt annualRate tenorInMonths =
     (let timeInYears = of_nat tenorInMonths / 12
      in principalAmt * annualRate * timeInYears)"

definition calculateMonthlyPayment :: "rat \<Rightarrow> nat \<Rightarrow> rat" where
  "calculateMonthlyPayment totalRepayable tenorInMonths =
     Math_ceil ((totalRepayable / of_nat tenorInMonths) * 100) / 100"

definition roundToTwoDecimals :: "rat \<Rightarrow> rat" where
  "roundToTwoDecimals v = Math_round (v * 100) / 100"


text \<open>A whole number of cents.\<close>

definition wholeCents :: "rat \<Rightarrow> bool" where
  "wholeCents x = (of_int \<lfloor>x * 100\<rfloor> = x * 100)"

section \<open>The loan model (modules/loans/loan.model.ts)\<close>

datatype LoanStatus =
  PENDING | UNDER_REVIEW | APPROVED | REJECTED | DISBURSED | ACTIVE | COMPLETED | DEFAULTED

datatype AppError =
    ValidationError string
  | NotFoundError string
  | ConflictError string
  | ConcurrencyError string
  | InvalidStateTransitionError LoanStatus LoanStatus
  | AppError string nat
  | MongooseValidationError string
  | DuplicateKeyError string
  | VersionError
  | TypeError

record IStatusChange =
  fromStatus :: "LoanStatus option"
  toStatus :: LoanStatus
  reason :: "string option"
  performedBy :: ObjectId
  timestamp :: Date

record IApprovalDetails =
  approvedBy :: ObjectId
  approvedAt :: Date
  approvedAmount :: rat
  conditions :: "string list option"

record IRejectionDetails =
  rejectedBy :: ObjectId
  rejectedAt :: Date
  rejectionReason :: string

text \<open>
  The disbursement subdocument is written field by field with dotted paths, so each
  field is optional.
\<close>

record IDisbursementDetails =
  disbursedAt :: "Date option"
  disbursedBy :: "ObjectId option"
  disbursementRef :: "string option"
  disbursementAmount :: "rat option"
  bankAccount :: "string option"
  disbursementBankCode :: "string option"
  providerReference :: "string option"

record BankDetails =
  accountNumber :: string
  bankName :: string
  accountName :: string
  bankCode :: string

record ILoan =
  loan_id :: ObjectId
  userId :: ObjectId
  applicationNumber :: string
  amount :: rat
  tenor :: nat
  purpose :: string
  interestRate :: rat
  totalInterest :: rat
  totalRepayable :: rat
  monthlyPayment :: rat
  status :: LoanStatus
  statusHistory :: "IStatusChange list"
  approvalDetails :: "IApprovalDetails option"
  rejectionDetails :: "IRejectionDetails option"
  disbursement :: IDisbursementDetails
  bankDetails :: "BankDetails option"
  totalRepaid :: rat
  outstandingBalance :: rat
  version :: nat

definition noDisbursement :: IDisbursementDetails where
  "noDisbursement =
     \<lparr>disbursedAt = None, disbursedBy = None, disbursementRef = None,
      disbursementAmount = None, bankAccount = None, disbursementBankCode = None,
      providerReference = None\<rparr>"

fun VALID_TRANSITIONS :: "LoanStatus \<Rightarrow> LoanStatus list" where
  "VALID_TRANSITIONS PENDING = [UNDER_REVIEW]"
| "VALID_TRANSITIONS UNDER_REVIEW = [APPROVED, REJECTED]"
| "VALID_TRANSITIONS APPROVED = [DISBURSED]"
| "VALID_TRANSITIONS REJECTED = []"
| "VALID_TRANSITIONS DISBURSED = [ACTIVE]"
| "VALID_TRANSITIONS ACTIVE = [COMPLETED, DEFAULTED]"
| "VALID_TRANSITIONS COMPLETED = []"
| "VALID_TRANSITIONS DEFAULTED = []"


text \<open>\<open>loanSchema.methods.transitionTo\<close>: the throw is the \<open>Inl\<close> branch.\<close>

definition transitionTo ::
  "ILoan \<Rightarrow> LoanStatus \<Rightarrow> ObjectId \<Rightarrow> string option \<Rightarrow> Date \<Rightarrow> AppError + ILoan" where
  "transitionTo this newStatus performer rsn now =
     (let currentStatus = status this;
          validNextStates = VALID_TRANSITIONS currentStatus
      in if newStatus \<notin> set validNextStates
         then Inl (InvalidStateTransitionError currentStatus newStatus)
         else Inr (this\<lparr>statusHistory := statusHistory this @
                       [\<lparr>fromStatus = Some currentStatus, toStatus = newStatus,
                         reason = rsn, performedBy = performer, timestamp = now\<rparr>],
                     status := newStatus\<rparr>))"

text \<open>
  The schema's validators for a new loan (they run before the \<open>pre('save')\<close> hook):
  amount at least 1000, tenor from 1 to 60, purpose present and at most 500 characters.
\<close>

definition validateLoan :: "ILoan \<Rightarrow> AppError option" where
  "validateLoan l =
     (if amount l < 1000 then Some (MongooseValidationError ''Minimum loan amount is 1000'')
      else if tenor l < 1 then Some (MongooseValidationError ''Minimum tenor is 1 month'')
      else if 60 < tenor l then Some (MongooseValidationError ''Maximum tenor is 60 months'')
      else if purpose l = [] then Some (MongooseValidationError ''Loan purpose is required'')
      else if 500 < length (purpose l)
        then Some (MongooseValidationError ''Purpose cannot exceed 500 characters'')
      else None)"

text \<open>
  \<open>loanSchema.pre('save')\<close> for a new document; \<open>appNo\<close> is the generated
  application number.
\<close>

definition preSaveNew :: "string \<Rightarrow> Date \<Rightarrow> ILoan \<Rightarrow> ILoan" where
  "preSaveNew appNo now this =
     (let this1 = (if applicationNumber this = [] then this\<lparr>applicationNumber := appNo\<rparr>
                   else this);
          this2 = this1\<lparr>totalInterest := roundToTwoDecimals
                     (calculateSimpleInterest (amount this1) (interestRate this1) (tenor this1))\<rparr>;
          this3 = this2\<lparr>totalRepayable := roundToTwoDecimals (amount this2 + totalInterest this2)\<rparr>;
          this4 = this3\<lparr>monthlyPayment := roundToTwoDecimals
                     (calculateMonthlyPayment (totalRepayable this3) (tenor this3))\<rparr>;
          this5 = this4\<lparr>outstandingBalance := totalRepayable this4\<rparr>
      in this5\<lparr>statusHistory := statusHistory this5 @
            [\<lparr>fromStatus = None, toStatus = PENDING, reason = None,
              performedBy = userId this5, timestamp = now\<rparr>]\<rparr>)"

text \<open>A new loan document with the schema's defaults.\<close>

definition newLoan :: "ObjectId \<Rightarrow> ObjectId \<Rightarrow> rat \<Rightarrow> nat \<Rightarrow> string \<Rightarrow> BankDetails option \<Rightarrow> ILoan" where
  "newLoan lid uid amt ten purp bank =
     \<lparr>loan_id = lid, userId = uid, applicationNumber = [], amount = amt, tenor = ten,
      purpose = purp, interestRate = 15 / 100, totalInterest = 0, totalRepayable = 0,
      monthlyPayment = 0, status = PENDING, statusHistory = [], approvalDetails = None,
      rejectionDetails = None, disbursement = noDisbursement, bankDetails = bank,
      totalRepaid = 0, outstandingBalance = 0, version = 0\<rparr>"

section \<open>Installments and payments (modules/payments)\<close>

datatype ScheduleStatus = S_PENDING | S_PARTIAL | S_PAID | S_OVERDUE

text \<open>
  \<open>dueDate\<close> is kept as the pair (start date, months added), the arguments of
  \<open>addMonths\<close>.
\<close>

record IRepaymentSchedule =
  schedule_id :: ObjectId
  s_loanId :: ObjectId
  installmentNumber :: nat
  dueDate :: "Date \<times> nat"
  principalAmount :: rat
  interestAmount :: rat
  totalAmount :: rat
  paidAmount :: rat
  s_status :: ScheduleStatus
  paidAt :: "Date option"

datatype PaymentType = REPAYMENT | REFUND | REVERSAL

datatype PaymentStatus = P_PENDING | P_PROCESSING | P_SUCCESS | P_FAILED

record Allocation =
  alloc_principal :: rat
  alloc_interest :: rat
  overpayment :: rat

record ManualProof =
  senderBank :: "string option"
  senderName :: "string option"
  transferDate :: "Date option"
  externalReference :: "string option"

record IPayment =
  payment_id :: ObjectId
  p_loanId :: ObjectId
  p_userId :: ObjectId
  idempotencyKey :: string
  p_type :: PaymentType
  p_amount :: rat
  reference :: string
  p_status :: PaymentStatus
  failureReason :: "string option"
  p_providerReference :: "string option"
  reconciled :: bool
  reconciledAt :: "Date option"
  allocation :: "Allocation option"
  proofOfPayment :: "string option"
  evidenceUrl :: "string option"
  manualProof :: "ManualProof option"
  verifiedBy :: "ObjectId option"
  verifiedAt :: "Date option"
  isOverpaymentRefunded :: bool

text \<open>The answer of \<open>paymentProvider.transfer\<close> (the fields the engine reads).\<close>

record TransferResult =
  success :: bool
  tr_providerReference :: "string option"
  message :: string

section \<open>The store\<close>

text \<open>
  The collections are lists of documents in insertion order. A query by \<open>_id\<close> or by
  a filter returns the first match; an update changes the first match.
\<close>

record Store =
  loans :: "ILoan list"
  payments :: "IPayment list"
  schedules :: "IRepaymentSchedule list"
  users :: "ObjectId list"

fun updateFirst :: "('a \<Rightarrow> bool) \<Rightarrow> ('a \<Rightarrow> 'a) \<Rightarrow> 'a list \<Rightarrow> 'a list" where
  "updateFirst P f [] = []"
| "updateFirst P f (x # xs) = (if P x then f x # xs else x # updateFirst P f xs)"

text \<open>A new object id: larger than every id in use.\<close>

definition newObjectId :: "nat list \<Rightarrow> nat" where
  "newObjectId ids = Suc (foldr max ids 0)"

definition Loan_findById :: "Store \<Rightarrow> ObjectId \<Rightarrow> ILoan option" where
  "Loan_findById db i = find (\<lambda>l. loan_id l = i) (loans db)"

definition Loan_findByIdAndUpdate :: "Store \<Rightarrow> ObjectId \<Rightarrow> (ILoan \<Rightarrow> ILoan) \<Rightarrow> Store" where
  "Loan_findByIdAndUpdate db i f = db\<lparr>loans := updateFirst (\<lambda>l. loan_id l = i) f (loans db)\<rparr>"

text \<open>
  \<open>doc.save()\<close> of a loaded loan under \<open>optimisticConcurrency\<close>: the write is
  conditioned on the version the document was loaded with and increments it.
\<close>

definition Loan_save :: "Store \<Rightarrow> ILoan \<Rightarrow> AppError + (Store \<times> ILoan)" where
  "Loan_save db doc =
     (case Loan_findById db (loan_id doc) of
        None \<Rightarrow> Inl VersionError
      | Some cur \<Rightarrow>
          if version cur \<noteq> version doc then Inl VersionError
          else let doc' = doc\<lparr>version := version doc + 1\<rparr>
               in Inr (Loan_findByIdAndUpdate db (loan_id doc) (\<lambda>_. doc'), doc'))"

definition Payment_findById :: "Store \<Rightarrow> ObjectId \<Rightarrow> IPayment option" where
  "Payment_findById db i = find (\<lambda>p. payment_id p = i) (payments db)"

definition Payment_findByKey :: "Store \<Rightarrow> string \<Rightarrow> IPayment option" where
  "Payment_findByKey db k = find (\<lambda>p. idempotencyKey p = k) (payments db)"

definition Payment_save :: "Store \<Rightarrow> IPayment \<Rightarrow> Store" where
  "Payment_save db doc =
     db\<lparr>payments := updateFirst (\<lambda>p. payment_id p = payment_id doc) (\<lambda>_. doc) (payments db)\<rparr>"

text \<open>A new payment document: the given fields and the schema's defaults.\<close>

definition newPayment ::
  "Store \<Rightarrow> ObjectId \<Rightarrow> ObjectId \<Rightarrow> string \<Rightarrow> PaymentType \<Rightarrow> rat \<Rightarrow> string \<Rightarrow> PaymentStatus
     \<Rightarrow> string option \<Rightarrow> string option \<Rightarrow> ManualProof option \<Rightarrow> IPayment" where
  "newPayment db lid uid key ty amt ref st pop url mproof =
     \<lparr>payment_id = newObjectId (map payment_id (payments db)),
      p_loanId = lid, p_userId = uid, idempotencyKey = key, p_type = ty,
      p_amount = amt, reference = ref, p_status = st, failureReason = None,
      p_providerReference = None, reconciled = False, reconciledAt = None,
      allocation = None, proofOfPayment = pop, evidenceUrl = url,
      manualProof = mproof, verifiedBy = None, verifiedAt = None,
      isOverpaymentRefunded = False\<rparr>"

text \<open>
  \<open>Payment.create\<close>: the schema rejects a negative amount, the unique indexes on
  \<open>idempotencyKey\<close> and \<open>reference\<close> reject a duplicate.
\<close>

definition Payment_create ::
  "Store \<Rightarrow> ObjectId \<Rightarrow> ObjectId \<Rightarrow> string \<Rightarrow> PaymentType \<Rightarrow> rat \<Rightarrow> string \<Rightarrow> PaymentStatus
     \<Rightarrow> string option \<Rightarrow> string option \<Rightarrow> ManualProof option \<Rightarrow> AppError + (Store \<times> IPayment)" where
  "Payment_create db lid uid key ty amt ref st pop url mproof =
     (if amt < 0 then Inl (MongooseValidationError ''amount is less than minimum allowed value (0)'')
      else if \<exists>p \<in> set (payments db). idempotencyKey p = key
        then Inl (DuplicateKeyError ''idempotencyKey'')
      else if \<exists>p \<in> set (payments db). reference p = ref
        then Inl (DuplicateKeyError ''reference'')
      else let doc = newPayment db lid uid key ty amt ref st pop url mproof
           in Inr (db\<lparr>payments := payments db @ [doc]\<rparr>, doc))"

section \<open>The loan service\<close>

text \<open>
  Every operation returns the store it leaves behind together with its outcome, since
  a thrown error does not undo the writes made before it.
\<close>

definition Loan_create :: "Store \<Rightarrow> ILoan \<Rightarrow> string \<Rightarrow> Date \<Rightarrow> Store \<times> (AppError + ILoan)" where
  "Loan_create db doc appNo now =
     (case validateLoan doc of
        Some e \<Rightarrow> (db, Inl e)
      | None \<Rightarrow>
          let doc' = preSaveNew appNo now doc
          in if \<exists>l \<in> set (loans db). applicationNumber l = applicationNumber doc'
             then (db, Inl (DuplicateKeyError ''applicationNumber''))
             else (db\<lparr>loans := loans db @ [doc']\<rparr>, Inr doc'))"

definition createLoan ::
  "Store \<Rightarrow> ObjectId \<Rightarrow> rat \<Rightarrow> nat \<Rightarrow> string \<Rightarrow> BankDetails option \<Rightarrow> string \<Rightarrow> Date
     \<Rightarrow> Store \<times> (AppError + ILoan)" where
  "createLoan db uid amt ten purp bank appNo now =
     (case find (\<lambda>l. userId l = uid \<and> status l \<in> set [PENDING, UNDER_REVIEW, APPROVED, ACTIVE])
             (loans db) of
        Some activeLoan \<Rightarrow> (db, Inl (ValidationError ''You have an active loan''))
      | None \<Rightarrow>
          Loan_create db (newLoan (newObjectId (map loan_id (loans db))) uid amt ten purp bank)
            appNo now)"

definition startReview :: "Store \<Rightarrow> ObjectId \<Rightarrow> ObjectId \<Rightarrow> Date \<Rightarrow> Store \<times> (AppError + ILoan)" where
  "startReview db loanId adminId now =
     (case Loan_findById db loanId of
        None \<Rightarrow> (db, Inl (NotFoundError ''Loan not found''))
      | Some loan \<Rightarrow>
          if status loan \<noteq> PENDING
          then (db, Inl (InvalidStateTransitionError (status loan) UNDER_REVIEW))
          else (case transitionTo loan UNDER_REVIEW adminId (Some ''Loan picked up for review'') now of
                  Inl e \<Rightarrow> (db, Inl e)
                | Inr loan1 \<Rightarrow>
                    (case Loan_save db loan1 of
                       Inl e \<Rightarrow> (db, Inl e)
                     | Inr (db', saved) \<Rightarrow> (db', Inr saved))))"

definition approveLoan ::
  "Store \<Rightarrow> ObjectId \<Rightarrow> ObjectId \<Rightarrow> rat option \<Rightarrow> string list option \<Rightarrow> Date
     \<Rightarrow> Store \<times> (AppError + ILoan)" where
  "approveLoan db loanId adminId approvedAmt conds now =
     (case Loan_findById db loanId of
        None \<Rightarrow> (db, Inl (NotFoundError ''Loan not found''))
      | Some loan \<Rightarrow>
          if status loan = APPROVED then (db, Inr loan)
          else if status loan \<noteq> UNDER_REVIEW
          then (db, Inl (InvalidStateTransitionError (status loan) APPROVED))
          else
            let finalAmount = (case approvedAmt of
                                 None \<Rightarrow> amount loan
                               | Some a \<Rightarrow> if a = 0 then amount loan else a)
            in if finalAmount > amount loan
               then (db, Inl (ValidationError ''Approved amount cannot exceed requested amount''))
               else (case transitionTo loan APPROVED adminId (Some ''Loan approved'') now of
                       Inl e \<Rightarrow> (db, Inl e)
                     | Inr loan1 \<Rightarrow>
                         let loan2 = loan1\<lparr>approvalDetails :=
                                       Some \<lparr>approvedBy = adminId, approvedAt = now,
                                             approvedAmount = finalAmount, conditions = conds\<rparr>\<rparr>;
                             loan3 =
                               (if finalAmount \<noteq> amount loan2 then
                                  let l1 = loan2\<lparr>amount := finalAmount\<rparr>;
                                      annualRate = interestRate l1;
                                      ten = tenor l1;
                                      l2 = l1\<lparr>totalInterest :=
                                             Math_round (finalAmount * annualRate * (of_nat ten / 12) * 100) / 100\<rparr>;
                                      l3 = l2\<lparr>totalRepayable :=
                                             Math_round ((finalAmount + totalInterest l2) * 100) / 100\<rparr>;
                                      l4 = l3\<lparr>monthlyPayment :=
                                             Math_round ((totalRepayable l3 / of_nat ten) * 100) / 100\<rparr>
                                  in l4\<lparr>outstandingBalance := totalRepayable l4\<rparr>
                                else loan2)
                         in if amount loan3 < 1000
                            then (db, Inl (MongooseValidationError ''Minimum loan amount is 1000''))
                            else (case Loan_save db loan3 of
                                    Inl e \<Rightarrow> (db, Inl e)
                                  | Inr (db', saved) \<Rightarrow> (db', Inr saved))))"


section \<open>The disbursement service (modules/disbursement/disbursement.service.ts)\<close>

text \<open>\<open>Loan.findOneAndUpdate(filter, update, {new: true})\<close>.\<close>

definition Loan_findOneAndUpdate ::
  "Store \<Rightarrow> (ILoan \<Rightarrow> bool) \<Rightarrow> (ILoan \<Rightarrow> ILoan) \<Rightarrow> (Store \<times> ILoan) option" where
  "Loan_findOneAndUpdate db flt upd =
     (case find flt (loans db) of
        None \<Rightarrow> None
      | Some l \<Rightarrow> Some (db\<lparr>loans := updateFirst flt upd (loans db)\<rparr>, upd l))"

text \<open>\<open>loan.approvalDetails?.approvedAmount || loan.amount\<close>\<close>

definition approvedAmountOrAmount :: "ILoan \<Rightarrow> rat" where
  "approvedAmountOrAmount loan =
     (case approvalDetails loan of
        None \<Rightarrow> amount loan
      | Some a \<Rightarrow> if approvedAmount a = 0 then amount loan else approvedAmount a)"

text \<open>
  The documents built by \<open>generateRepaymentSchedule\<close>; \<open>base\<close> is the id given to
  the first of them.
\<close>

definition scheduleDocs :: "ILoan \<Rightarrow> Date \<Rightarrow> ObjectId \<Rightarrow> IRepaymentSchedule list" where
  "scheduleDocs loan startDate base =
     (let totalPrincipal = approvedAmountOrAmount loan;
          totalInt = totalInterest loan;
          ten = tenor loan;
          principalPerInstallment = roundToTwoDecimals (totalPrincipal / of_nat ten);
          interestPerInstallment = roundToTwoDecimals (totalInt / of_nat ten);
          totalPerInstallment = roundToTwoDecimals (principalPerInstallment + interestPerInstallment)
      in map (\<lambda>i.
           let paidPrincipal = principalPerInstallment * (of_nat ten - 1);
               paidInterest = interestPerInstallment * (of_nat ten - 1);
               princ = (if i = ten then roundToTwoDecimals (totalPrincipal - paidPrincipal)
                        else principalPerInstallment);
               intr = (if i = ten then roundToTwoDecimals (totalInt - paidInterest)
                       else interestPerInstallment);
               total = (if i = ten then roundToTwoDecimals (princ + intr)
                        else totalPerInstallment)
           in \<lparr>schedule_id = base + (i - 1), s_loanId = loan_id loan, installmentNumber = i,
               dueDate = (startDate, i), principalAmount = princ, interestAmount = intr,
               totalAmount = total, paidAmount = 0, s_status = S_PENDING, paidAt = None\<rparr>)
         [1..<Suc ten])"

definition generateRepaymentSchedule :: "Store \<Rightarrow> ILoan \<Rightarrow> Date \<Rightarrow> Store" where
  "generateRepaymentSchedule db loan startDate =
     db\<lparr>schedules := schedules db @
          scheduleDocs loan startDate (newObjectId (map schedule_id (schedules db)))\<rparr>"

record DisbursementResult =
  dr_loan :: ILoan
  dr_disbursementRef :: string
  dr_providerReference :: "string option"
  dr_amount :: rat

text \<open>
  The three updates \<open>disburseLoan\<close> applies to the loan document: the reservation
  (lines 59 to 77), the rollback after a failed transfer (lines 114 to 126) and the
  commit after a successful one (lines 134 to 147).
\<close>

definition reserveUpdate :: "BankDetails \<Rightarrow> ObjectId \<Rightarrow> string \<Rightarrow> Date \<Rightarrow> ILoan \<Rightarrow> ILoan" where
  "reserveUpdate bank adminId ref now l =
     l\<lparr>status := DISBURSED,
       disbursement := (disbursement l)
         \<lparr>disbursementRef := Some ref, disbursedBy := Some adminId,
          disbursedAt := Some now,
          bankAccount := Some (accountNumber bank),
          disbursementBankCode := Some (bankCode bank)\<rparr>,
       statusHistory := statusHistory l @
         [\<lparr>fromStatus = Some APPROVED, toStatus = DISBURSED,
           reason = Some ''Loan disbursed'', performedBy = adminId,
           timestamp = now\<rparr>]\<rparr>"

definition rollbackUpdate :: "ObjectId \<Rightarrow> Date \<Rightarrow> TransferResult \<Rightarrow> ILoan \<Rightarrow> ILoan" where
  "rollbackUpdate adminId now tr l =
     l\<lparr>status := APPROVED,
       disbursement := (disbursement l)\<lparr>disbursementRef := None\<rparr>,
       statusHistory := statusHistory l @
         [\<lparr>fromStatus = Some DISBURSED, toStatus = APPROVED,
           reason = Some (''Disbursement failed: '' @ message tr),
           performedBy = adminId, timestamp = now\<rparr>]\<rparr>"

definition commitUpdate :: "ObjectId \<Rightarrow> Date \<Rightarrow> TransferResult \<Rightarrow> rat \<Rightarrow> ILoan \<Rightarrow> ILoan" where
  "commitUpdate adminId now tr disbursementAmt l =
     l\<lparr>status := ACTIVE,
       disbursement := (disbursement l)
         \<lparr>disbursementAmount := Some disbursementAmt,
          providerReference := tr_providerReference tr\<rparr>,
       statusHistory := statusHistory l @
         [\<lparr>fromStatus = Some DISBURSED, toStatus = ACTIVE,
           reason = Some ''Funds transferred successfully, repayment started'',
           performedBy = adminId, timestamp = now\<rparr>]\<rparr>"

text \<open>
  \<open>disburseLoan\<close>; \<open>ref\<close> is the generated disbursement reference and \<open>tr\<close> the
  provider's answer to the transfer. The unique sparse index on
  \<open>disbursement.disbursementRef\<close> rejects a reference another loan holds.
\<close>

definition disburseLoan ::
  "Store \<Rightarrow> ObjectId \<Rightarrow> ObjectId \<Rightarrow> string \<Rightarrow> Date \<Rightarrow> TransferResult
     \<Rightarrow> Store \<times> (AppError + DisbursementResult)" where
  "disburseLoan db loanId adminId ref now tr =
     (case Loan_findById db loanId of
        None \<Rightarrow> (db, Inl (NotFoundError ''Loan not found''))
      | Some initialLoan \<Rightarrow>
         (case bankDetails initialLoan of
            None \<Rightarrow> (db, Inl (AppError ''Bank details missing for this loan'' 400))
          | Some bank \<Rightarrow>
             (case Loan_findOneAndUpdate db
                     (\<lambda>l. loan_id l = loanId \<and> status l = APPROVED
                          \<and> disbursementRef (disbursement l) = None)
                     (reserveUpdate bank adminId ref now) of
                None \<Rightarrow>
                  (case Loan_findById db loanId of
                     None \<Rightarrow> (db, Inl (NotFoundError ''Loan not found''))
                   | Some existingLoan \<Rightarrow>
                       if status existingLoan \<noteq> APPROVED
                       then (db, Inl (InvalidStateTransitionError (status existingLoan) DISBURSED))
                       else if disbursementRef (disbursement existingLoan) \<noteq> None
                               \<and> disbursementRef (disbursement existingLoan) \<noteq> Some []
                       then (db, Inl (ConflictError ''Loan has already been disbursed''))
                       else (db, Inl (AppError ''Failed to process disbursement'' 500)))
              | Some (db1, loan) \<Rightarrow>
                  if \<exists>l \<in> set (loans db). loan_id l \<noteq> loanId
                        \<and> disbursementRef (disbursement l) = Some ref
                  then (db, Inl (DuplicateKeyError ''disbursement.disbursementRef''))
                  else
                    let disbursementAmt = approvedAmountOrAmount loan
                    in if \<not> success tr
                       then (Loan_findByIdAndUpdate db1 loanId (rollbackUpdate adminId now tr),
                             Inl (AppError (''Disbursement failed: '' @ message tr) 500))
                       else
                         (case Loan_findOneAndUpdate db1 (\<lambda>l. loan_id l = loanId)
                                 (commitUpdate adminId now tr disbursementAmt) of
                            None \<Rightarrow> (db1, Inl TypeError)
                          | Some (db2, updatedLoan) \<Rightarrow>
                              (generateRepaymentSchedule db2 updatedLoan now,
                               Inr \<lparr>dr_loan = updatedLoan, dr_disbursementRef = ref,
                                    dr_providerReference = tr_providerReference tr,
                                    dr_amount = disbursementAmt\<rparr>)))))"

section \<open>The payment service (modules/payments/payment.service.ts)\<close>







definition Schedule_save :: "IRepaymentSchedule \<Rightarrow> Store \<Rightarrow> Store" where
  "Schedule_save doc db =
     db\<lparr>schedules := updateFirst (\<lambda>s. schedule_id s = schedule_id doc) (\<lambda>_. doc) (schedules db)\<rparr>"











text \<open>\<open>processRefund\<close>; \<open>tr\<close> is the provider's answer to the transfer.\<close>

definition processRefund ::
  "Store \<Rightarrow> ObjectId \<Rightarrow> ObjectId \<Rightarrow> string \<Rightarrow> string \<Rightarrow> string \<Rightarrow> Date \<Rightarrow> TransferResult
     \<Rightarrow> Store \<times> (AppError + IPayment)" where
  "processRefund db paymentId adminId rsn key ref now tr =
     (case Payment_findByKey db key of
        Some existingRefund \<Rightarrow> (db, Inr existingRefund)
      | None \<Rightarrow>
         (case Payment_findById db paymentId of
            None \<Rightarrow> (db, Inl (NotFoundError ''Payment not found''))
          | Some originalPayment \<Rightarrow>
              if p_status originalPayment \<noteq> P_SUCCESS
              then (db, Inl (ValidationError ''Can only refund successful payments''))
              else
                (case Payment_create db (p_loanId originalPayment) (p_userId originalPayment) key
                        REFUND (p_amount originalPayment) ref P_PROCESSING None None None of
                   Inl e \<Rightarrow> (db, Inl e)
                 | Inr (db1, refund) \<Rightarrow>
                     if success tr then
                       let refund1 = refund\<lparr>p_status := P_SUCCESS,
                                            p_providerReference := tr_providerReference tr,
                                            reconciled := True, reconciledAt := Some now\<rparr>;
                           db2 = Loan_findByIdAndUpdate db1 (p_loanId originalPayment)
                                   (\<lambda>l. l\<lparr>totalRepaid := totalRepaid l + (- p_amount originalPayment),
                                           outstandingBalance :=
                                             outstandingBalance l + p_amount originalPayment\<rparr>)
                       in (Payment_save db2 refund1, Inr refund1)
                     else
                       let refund1 = refund\<lparr>p_status := P_FAILED,
                                            failureReason := Some (message tr)\<rparr>
                       in (Payment_save db1 refund1, Inr refund1))))"




datatype VerifyStatus = V_success | V_failed




section \<open>The state machine as the specification states it\<close>

text \<open>The legal transitions, written from the specification's list.\<close>

definition spec_legalTransitions :: "(LoanStatus \<times> LoanStatus) list" where
  "spec_legalTransitions =
     [(PENDING, UNDER_REVIEW), (UNDER_REVIEW, APPROVED), (UNDER_REVIEW, REJECTED),
      (APPROVED, DISBURSED), (DISBURSED, ACTIVE), (ACTIVE, COMPLETED), (ACTIVE, DEFAULTED)]"


text \<open>
  What a history entry can be: the entry written at creation (no source status, target
  pending), a legal transition, or the rollback of a reservation (disbursed to
  approved).
\<close>

definition historyEntryOK :: "IStatusChange \<Rightarrow> bool" where
  "historyEntryOK h =
     (case fromStatus h of
        None \<Rightarrow> toStatus h = PENDING
      | Some f \<Rightarrow> (f, toStatus h) \<in> set spec_legalTransitions
                    \<or> (f = DISBURSED \<and> toStatus h = APPROVED))"

definition loanHistoryOK :: "ILoan \<Rightarrow> bool" where
  "loanHistoryOK l = list_all historyEntryOK (statusHistory l)"




section \<open>Scenarios\<close>

text \<open>
  Concrete runs of the engine, used to evaluate the operations: a store with the
  borrowers 1 and 2 and the operator 9, and the stores that the operations produce
  from it.
\<close>

definition store0 :: Store where
  "store0 = \<lparr>loans = [], payments = [], schedules = [], users = [1, 2, 9]\<rparr>"

definition bank0 :: BankDetails where
  "bank0 = \<lparr>accountNumber = ''0123456789'', bankName = ''First Bank'',
            accountName = ''Ada Obi'', bankCode = ''011''\<rparr>"

text \<open>Scenario A: 100000 over 10 months, reviewed, approved at 60000.\<close>

definition sA1 :: Store where
  "sA1 = fst (createLoan store0 1 100000 10 ''stock'' (Some bank0) ''LN-A'' 10)"

definition lA1 :: ILoan where
  "lA1 = projr (snd (createLoan store0 1 100000 10 ''stock'' (Some bank0) ''LN-A'' 10))"

definition sA2 :: Store where
  "sA2 = fst (startReview sA1 1 9 11)"


definition sA3 :: Store where
  "sA3 = fst (approveLoan sA2 1 9 (Some 60000) None 12)"

definition lA3 :: ILoan where
  "lA3 = projr (snd (approveLoan sA2 1 9 (Some 60000) None 12))"




definition trFail :: TransferResult where
  "trFail = \<lparr>success = False, tr_providerReference = None,
             message = ''Transfer failed - Insufficient funds in settlement account''\<rparr>"

definition trOK :: TransferResult where
  "trOK = \<lparr>success = True, tr_providerReference = Some ''PROV-1'',
           message = ''Transfer successful''\<rparr>"

text \<open>
  Scenario A, continued: the first disbursement fails at the provider, the second
  succeeds.
\<close>

definition sA4 :: Store where
  "sA4 = fst (disburseLoan sA3 1 9 ''DSB-1'' 13 trFail)"


definition sA5 :: Store where
  "sA5 = fst (disburseLoan sA4 1 9 ''DSB-2'' 14 trOK)"

text \<open>
  Scenario D: 1000 over 2 months for borrower 2, reviewed, approved in full and
  disbursed: an active loan of 1025 with two installments of 512.50.
\<close>

definition sD3 :: Store where
  "sD3 = fst (approveLoan
               (fst (startReview
                      (fst (createLoan store0 2 1000 2 ''fees'' (Some bank0) ''LN-D'' 30))
                      1 9 31))
               1 9 None None 32)"

definition lD3 :: ILoan where
  "lD3 = hd (loans sD3)"

definition loanD :: ILoan where
  "loanD =
     \<lparr>loan_id = 1, userId = 2, applicationNumber = ''LN-D'', amount = 1000,
      tenor = 2, purpose = ''fees'', interestRate = 3 / 20,
      totalInterest = 25, totalRepayable = 1025,
      monthlyPayment = 1025 / 2, status = ACTIVE,
      statusHistory =
        [\<lparr>fromStatus = None, toStatus = PENDING, reason = None,
          performedBy = 2, timestamp = 30\<rparr>,
         \<lparr>fromStatus = Some PENDING, toStatus = UNDER_REVIEW,
          reason = Some ''Loan picked up for review'', performedBy = 9,
          timestamp = 31\<rparr>,
         \<lparr>fromStatus = Some UNDER_REVIEW, toStatus = APPROVED,
          reason = Some ''Loan approved'', performedBy = 9,
          timestamp = 32\<rparr>,
         \<lparr>fromStatus = Some APPROVED, toStatus = DISBURSED,
          reason = Some ''Loan disbursed'', performedBy = 9,
          timestamp = 33\<rparr>,
         \<lparr>fromStatus = Some DISBURSED, toStatus = ACTIVE,
          reason = Some ''Funds transferred successfully, repayment started'',
          performedBy = 9, timestamp = 33\<rparr>],
      approvalDetails =
        Some \<lparr>approvedBy = 9, approvedAt = 32, approvedAmount = 1000, conditions = None\<rparr>,
      rejectionDetails = None,
      disbursement =
        \<lparr>disbursedAt = Some 33, disbursedBy = Some 9,
         disbursementRef = Some ''DSB-D'', disbursementAmount = Some 1000,
         bankAccount = Some ''0123456789'', disbursementBankCode = Some ''011'',
         providerReference = Some ''PROV-1''\<rparr>,
      bankDetails = Some bank0,
      totalRepaid = 0, outstandingBalance = 1025, version = 2\<rparr>"

definition storeD :: Store where
  "storeD =
     \<lparr>loans = [loanD],
      payments = [],
      schedules =
        [\<lparr>schedule_id = 1, s_loanId = 1, installmentNumber = 1,
          dueDate = (33, 1), principalAmount = 500, interestAmount = 25 / 2,
          totalAmount = 1025 / 2, paidAmount = 0, s_status = S_PENDING,
          paidAt = None\<rparr>,
         \<lparr>schedule_id = 2, s_loanId = 1, installmentNumber = 2,
          dueDate = (33, 2), principalAmount = 500, interestAmount = 25 / 2,
          totalAmount = 1025 / 2, paidAmount = 0, s_status = S_PENDING,
          paidAt = None\<rparr>],
      users = [1, 2, 9]\<rparr>"

section \<open>Rounding\<close>












lemma wholeCents_0: "wholeCents 0"
  by (simp add: wholeCents_def)



section \<open>Monetary derivation\<close>





text \<open>
  The figures of scenario A: 12500, 112500 and 11250 on creation; 7500, 67500 and 6750
  after the approval at 60000.
\<close>

lemma scenarioA_figures:
  "totalInterest lA1 = 12500 \<and> totalRepayable lA1 = 112500 \<and> monthlyPayment lA1 = 11250
   \<and> totalInterest lA3 = 7500 \<and> totalRepayable lA3 = 67500 \<and> monthlyPayment lA3 = 6750
   \<and> outstandingBalance lA3 = 67500"
  by code_simp


section \<open>The repayment schedule\<close>



lemma sum_list_const_upt: "sum_list (map (\<lambda>i. (c::rat)) [m..<n]) = of_nat (n - m) * c"
  by (simp add: sum_list_triv)





section \<open>Queries and updates on lists of documents\<close>

lemma find_conj:
  "find P xs = Some x \<Longrightarrow> Q x \<Longrightarrow> find (\<lambda>y. P y \<and> Q y) xs = Some x"
  by (induction xs) (auto split: if_splits)

lemma updateFirst_conj:
  "find P xs = Some x \<Longrightarrow> Q x \<Longrightarrow> updateFirst (\<lambda>y. P y \<and> Q y) f xs = updateFirst P f xs"
  by (induction xs) (auto split: if_splits)

lemma find_updateFirst:
  "find P xs = Some x \<Longrightarrow> P (f x) \<Longrightarrow> find P (updateFirst P f xs) = Some (f x)"
  by (induction xs) (auto split: if_splits)

lemma updateFirst_none: "find P xs = None \<Longrightarrow> updateFirst P f xs = xs"
  by (induction xs) (auto split: if_splits)

lemma updateFirst_twice:
  "find P xs = Some x \<Longrightarrow> P (f x) \<Longrightarrow> updateFirst P g (updateFirst P f xs) = updateFirst P (\<lambda>y. g (f y)) xs"
  by (induction xs) (auto split: if_splits)

lemma set_updateFirst:
  "find P xs = Some x \<Longrightarrow> set (updateFirst P f xs) \<subseteq> insert (f x) (set xs)"
  by (induction xs) (auto split: if_splits)

lemma find_Some_mem: "find P xs = Some x \<Longrightarrow> x \<in> set xs \<and> P x"
  by (induction xs) (auto split: if_splits)

lemma approvedAmountOrAmount_reserve:
  "approvedAmountOrAmount (reserveUpdate bank adminId ref now l) = approvedAmountOrAmount l"
  by (simp add: approvedAmountOrAmount_def reserveUpdate_def split: option.splits)

lemma loan_id_updates:
  "loan_id (reserveUpdate bank adminId ref now l) = loan_id l"
  "loan_id (rollbackUpdate adminId now tr l) = loan_id l"
  "loan_id (commitUpdate adminId now tr amt l) = loan_id l"
  by (simp_all add: reserveUpdate_def rollbackUpdate_def commitUpdate_def)

lemma disburseLoan_reserve:
  assumes f: "Loan_findById db loanId = Some l0"
    and st: "status l0 = APPROVED"
    and nr: "disbursementRef (disbursement l0) = None"
  shows "Loan_findOneAndUpdate db
           (\<lambda>l. loan_id l = loanId \<and> status l = APPROVED \<and> disbursementRef (disbursement l) = None) g
         = Some (db\<lparr>loans := updateFirst (\<lambda>l. loan_id l = loanId) g (loans db)\<rparr>, g l0)"
proof -
  have f': "find (\<lambda>l. loan_id l = loanId) (loans db) = Some l0"
    using f by (simp add: Loan_findById_def)
  have c: "find (\<lambda>l. loan_id l = loanId \<and> status l = APPROVED \<and> disbursementRef (disbursement l) = None)
             (loans db) = Some l0"
    using find_conj [OF f', of "\<lambda>l. status l = APPROVED \<and> disbursementRef (disbursement l) = None"] st nr
    by simp
  have u: "updateFirst (\<lambda>l. loan_id l = loanId \<and> status l = APPROVED \<and> disbursementRef (disbursement l) = None)
             g (loans db) = updateFirst (\<lambda>l. loan_id l = loanId) g (loans db)"
    using updateFirst_conj [OF f', of "\<lambda>l. status l = APPROVED \<and> disbursementRef (disbursement l) = None"] st nr
    by simp
  show ?thesis by (simp add: Loan_findOneAndUpdate_def c u)
qed

lemma disburseLoan_failure:
  assumes f: "Loan_findById db loanId = Some l0"
    and st: "status l0 = APPROVED" and bk: "bankDetails l0 = Some bank"
    and nr: "disbursementRef (disbursement l0) = None"
    and fresh: "\<forall>l \<in> set (loans db). disbursementRef (disbursement l) \<noteq> Some ref"
    and tr: "\<not> success tr"
  shows "disburseLoan db loanId adminId ref now tr =
     (db\<lparr>loans := updateFirst (\<lambda>l. loan_id l = loanId)
                     (\<lambda>l. rollbackUpdate adminId now tr (reserveUpdate bank adminId ref now l)) (loans db)\<rparr>,
      Inl (AppError (''Disbursement failed: '' @ message tr) 500))"
proof -
  have f': "find (\<lambda>l. loan_id l = loanId) (loans db) = Some l0"
    using f by (simp add: Loan_findById_def)
  have id0: "loan_id l0 = loanId" using find_Some_mem [OF f'] by simp
  have nd: "\<not> (\<exists>l \<in> set (loans db). loan_id l \<noteq> loanId \<and> disbursementRef (disbursement l) = Some ref)"
    using fresh by blast
  have tw: "updateFirst (\<lambda>l. loan_id l = loanId) g
              (updateFirst (\<lambda>l. loan_id l = loanId) (reserveUpdate bank adminId ref now) (loans db))
        = updateFirst (\<lambda>l. loan_id l = loanId) (\<lambda>y. g (reserveUpdate bank adminId ref now y)) (loans db)" for g
    using updateFirst_twice [OF f', of "reserveUpdate bank adminId ref now" g] id0
    by (simp add: loan_id_updates)
  show ?thesis
    unfolding disburseLoan_def
    using f bk nd tr
    by (simp add: disburseLoan_reserve [OF f st nr] Loan_findByIdAndUpdate_def tw)
qed

lemma disburseLoan_success:
  assumes f: "Loan_findById db loanId = Some l0"
    and st: "status l0 = APPROVED" and bk: "bankDetails l0 = Some bank"
    and nr: "disbursementRef (disbursement l0) = None"
    and fresh: "\<forall>l \<in> set (loans db). disbursementRef (disbursement l) \<noteq> Some ref"
    and tr: "success tr"
  shows "disburseLoan db loanId adminId ref now tr =
     (generateRepaymentSchedule
        (db\<lparr>loans := updateFirst (\<lambda>l. loan_id l = loanId)
                     (\<lambda>l. commitUpdate adminId now tr (approvedAmountOrAmount l0)
                            (reserveUpdate bank adminId ref now l)) (loans db)\<rparr>)
        (commitUpdate adminId now tr (approvedAmountOrAmount l0) (reserveUpdate bank adminId ref now l0))
        now,
      Inr \<lparr>dr_loan = commitUpdate adminId now tr (approvedAmountOrAmount l0)
                        (reserveUpdate bank adminId ref now l0),
           dr_disbursementRef = ref, dr_providerReference = tr_providerReference tr,
           dr_amount = approvedAmountOrAmount l0\<rparr>)"
proof -
  have f': "find (\<lambda>l. loan_id l = loanId) (loans db) = Some l0"
    using f by (simp add: Loan_findById_def)
  have id0: "loan_id l0 = loanId" using find_Some_mem [OF f'] by simp
  have nd: "\<not> (\<exists>l \<in> set (loans db). loan_id l \<noteq> loanId \<and> disbursementRef (disbursement l) = Some ref)"
    using fresh by blast
  have tw: "updateFirst (\<lambda>l. loan_id l = loanId) g
              (updateFirst (\<lambda>l. loan_id l = loanId) (reserveUpdate bank adminId ref now) (loans db))
        = updateFirst (\<lambda>l. loan_id l = loanId) (\<lambda>y. g (reserveUpdate bank adminId ref now y)) (loans db)" for g
    using updateFirst_twice [OF f', of "reserveUpdate bank adminId ref now" g] id0
    by (simp add: loan_id_updates)
  have f2: "find (\<lambda>l. loan_id l = loanId)
              (updateFirst (\<lambda>l. loan_id l = loanId) (reserveUpdate bank adminId ref now) (loans db))
            = Some (reserveUpdate bank adminId ref now l0)"
    using find_updateFirst [OF f', of "reserveUpdate bank adminId ref now"] id0
    by (simp add: loan_id_updates)
  have c2: "Loan_findOneAndUpdate
              (db\<lparr>loans := updateFirst (\<lambda>l. loan_id l = loanId) (reserveUpdate bank adminId ref now) (loans db)\<rparr>)
              (\<lambda>l. loan_id l = loanId) g
            = Some (db\<lparr>loans := updateFirst (\<lambda>l. loan_id l = loanId)
                                    (\<lambda>y. g (reserveUpdate bank adminId ref now y)) (loans db)\<rparr>,
                    g (reserveUpdate bank adminId ref now l0))" for g
    by (simp add: Loan_findOneAndUpdate_def f2 tw)
  show ?thesis
    unfolding disburseLoan_def
    using f bk nd tr
    by (simp add: disburseLoan_reserve [OF f st nr] c2 approvedAmountOrAmount_reserve Let_def)
qed


text \<open>
  C7. When the provider transfer fails during the disbursement of an approved loan
  (with bank details, no disbursement reference, and a generated reference no loan
  holds), the attempt is reported as a failure carrying the provider's message; the
  loan is back in status approved, its \<open>disbursementRef\<close> is unset, its history has
  gained the approved-to-disbursed entry and the disbursed-to-approved entry that
  quotes the provider's message, and no installment has been created. A second attempt
  with a fresh reference whose transfer succeeds then succeeds: the loan becomes active
  and its \<open>tenor\<close> installments are created.
\<close>

theorem C7_disbursement_failure:
  assumes "Loan_findById db loanId = Some l0"
    and "status l0 = APPROVED" and "bankDetails l0 = Some bank"
    and "disbursementRef (disbursement l0) = None"
    and "\<forall>l \<in> set (loans db). disbursementRef (disbursement l) \<noteq> Some ref"
    and "\<not> success tr"
    and "\<forall>l \<in> set (loans db). disbursementRef (disbursement l) \<noteq> Some ref2"
    and "success tr2"
  shows "snd (disburseLoan db loanId adminId ref now tr)
           = Inl (AppError (''Disbursement failed: '' @ message tr) 500)
    \<and> map_option status (Loan_findById (fst (disburseLoan db loanId adminId ref now tr)) loanId)
         = Some APPROVED
    \<and> map_option (\<lambda>l. disbursementRef (disbursement l))
         (Loan_findById (fst (disburseLoan db loanId adminId ref now tr)) loanId) = Some None
    \<and> map_option statusHistory (Loan_findById (fst (disburseLoan db loanId adminId ref now tr)) loanId)
         = Some (statusHistory l0 @
             [\<lparr>fromStatus = Some APPROVED, toStatus = DISBURSED, reason = Some ''Loan disbursed'',
               performedBy = adminId, timestamp = now\<rparr>,
              \<lparr>fromStatus = Some DISBURSED, toStatus = APPROVED,
               reason = Some (''Disbursement failed: '' @ message tr),
               performedBy = adminId, timestamp = now\<rparr>])
    \<and> schedules (fst (disburseLoan db loanId adminId ref now tr)) = schedules db
    \<and> \<not> isl (snd (disburseLoan (fst (disburseLoan db loanId adminId ref now tr))
                      loanId adminId2 ref2 now2 tr2))
    \<and> map_option status
         (Loan_findById (fst (disburseLoan (fst (disburseLoan db loanId adminId ref now tr))
                                loanId adminId2 ref2 now2 tr2)) loanId) = Some ACTIVE
    \<and> length (schedules (fst (disburseLoan (fst (disburseLoan db loanId adminId ref now tr))
                                loanId adminId2 ref2 now2 tr2)))
         = length (schedules db) + tenor l0"
proof -
  let ?byId = "\<lambda>l. loan_id l = loanId"
  let ?l1 = "rollbackUpdate adminId now tr (reserveUpdate bank adminId ref now l0)"
  let ?db1 = "db\<lparr>loans := updateFirst ?byId
                (\<lambda>l. rollbackUpdate adminId now tr (reserveUpdate bank adminId ref now l)) (loans db)\<rparr>"
  have f': "find ?byId (loans db) = Some l0"
    using assms(1) by (simp add: Loan_findById_def)
  have id0: "loan_id l0 = loanId" using find_Some_mem [OF f'] by simp
  have fail: "disburseLoan db loanId adminId ref now tr
     = (?db1, Inl (AppError (''Disbursement failed: '' @ message tr) 500))"
    by (rule disburseLoan_failure [OF assms(1-6)])
  have f1: "Loan_findById ?db1 loanId = Some ?l1"
    using find_updateFirst [OF f', of "\<lambda>l. rollbackUpdate adminId now tr (reserveUpdate bank adminId ref now l)"] id0
    by (simp add: Loan_findById_def loan_id_updates)
  have st1: "status ?l1 = APPROVED" and bk1: "bankDetails ?l1 = Some bank"
    and nr1: "disbursementRef (disbursement ?l1) = None"
    and h1: "statusHistory ?l1 = statusHistory l0 @
             [\<lparr>fromStatus = Some APPROVED, toStatus = DISBURSED, reason = Some ''Loan disbursed'',
               performedBy = adminId, timestamp = now\<rparr>,
              \<lparr>fromStatus = Some DISBURSED, toStatus = APPROVED,
               reason = Some (''Disbursement failed: '' @ message tr),
               performedBy = adminId, timestamp = now\<rparr>]"
    and t1: "tenor ?l1 = tenor l0"
    using assms(3) by (simp_all add: rollbackUpdate_def reserveUpdate_def)
  have fresh1: "\<forall>l \<in> set (loans ?db1). disbursementRef (disbursement l) \<noteq> Some ref2"
    using set_updateFirst [OF f', of "\<lambda>l. rollbackUpdate adminId now tr (reserveUpdate bank adminId ref now l)"]
      assms(7) nr1 by auto
  note ok = disburseLoan_success [OF f1 st1 bk1 nr1 fresh1 assms(8), of adminId2 now2]
  let ?l2 = "commitUpdate adminId2 now2 tr2 (approvedAmountOrAmount ?l1)
               (reserveUpdate bank adminId2 ref2 now2 ?l1)"
  have f1': "find ?byId (loans ?db1) = Some ?l1"
    using f1 by (simp add: Loan_findById_def)
  have f2: "Loan_findById (fst (disburseLoan ?db1 loanId adminId2 ref2 now2 tr2)) loanId = Some ?l2"
    unfolding ok
    using find_updateFirst [OF f1', of "\<lambda>l. commitUpdate adminId2 now2 tr2 (approvedAmountOrAmount ?l1)
               (reserveUpdate bank adminId2 ref2 now2 l)"] id0
    by (simp add: Loan_findById_def generateRepaymentSchedule_def loan_id_updates)
  have st2: "status ?l2 = ACTIVE" and t2: "tenor ?l2 = tenor l0"
    by (simp_all add: commitUpdate_def reserveUpdate_def rollbackUpdate_def)
  have len: "length (schedules (fst (disburseLoan ?db1 loanId adminId2 ref2 now2 tr2)))
        = length (schedules db) + tenor l0"
    unfolding ok by (simp add: generateRepaymentSchedule_def scheduleDocs_def Let_def t2)
  show ?thesis
    unfolding fail fst_conv snd_conv
    using f1 st1 nr1 h1 f2 st2 len ok by simp
qed

theorem C7_disbursement_failure_witness:
  "Loan_findById sA3 1 = Some lA3 \<and> status lA3 = APPROVED \<and> bankDetails lA3 = Some bank0
   \<and> disbursementRef (disbursement lA3) = None \<and> \<not> success trFail \<and> success trOK
   \<and> snd (disburseLoan sA3 1 9 ''DSB-1'' 13 trFail)
        = Inl (AppError (''Disbursement failed: '' @ message trFail) 500)
   \<and> map_option status (Loan_findById sA4 1) = Some APPROVED
   \<and> map_option (\<lambda>l. disbursementRef (disbursement l)) (Loan_findById sA4 1) = Some None
   \<and> schedules sA4 = schedules sA3
   \<and> \<not> isl (snd (disburseLoan sA4 1 9 ''DSB-2'' 14 trOK))
   \<and> map_option status (Loan_findById sA5 1) = Some ACTIVE
   \<and> length (schedules sA5) = length (schedules sA3) + tenor lA3"
proof -
  have h: "Loan_findById sA3 1 = Some lA3" "status lA3 = APPROVED" "bankDetails lA3 = Some bank0"
    "disbursementRef (disbursement lA3) = None"
    "\<forall>l \<in> set (loans sA3). disbursementRef (disbursement l) \<noteq> Some ''DSB-1''"
    "\<not> success trFail"
    "\<forall>l \<in> set (loans sA3). disbursementRef (disbursement l) \<noteq> Some ''DSB-2''"
    "success trOK"
    by code_simp+
  show ?thesis
    using h(1-4,6,8) C7_disbursement_failure [OF h, of 9 13 9 14]
    unfolding sA4_def [symmetric] sA5_def [symmetric]
    by simp
qed

section \<open>Legal transitions and the status history\<close>

lemma transitionTo_legal:
  "(\<exists>l'. transitionTo l s p r now = Inr l') \<longleftrightarrow> (status l, s) \<in> set spec_legalTransitions"
  by (cases "status l"; cases s) (simp_all add: transitionTo_def spec_legalTransitions_def)


lemma transitionTo_Inl:
  "(status l, s) \<notin> set spec_legalTransitions \<Longrightarrow>
     transitionTo l s p r now = Inl (InvalidStateTransitionError (status l) s)"
  by (cases "status l"; cases s) (simp_all add: transitionTo_def spec_legalTransitions_def)

lemma loanHistoryOK_append:
  "loanHistoryOK l \<Longrightarrow> historyEntryOK h \<Longrightarrow> statusHistory l' = statusHistory l @ [h] \<Longrightarrow> loanHistoryOK l'"
  by (simp add: loanHistoryOK_def)

lemma loanHistoryOK_same:
  "loanHistoryOK l \<Longrightarrow> statusHistory l' = statusHistory l \<Longrightarrow> loanHistoryOK l'"
  by (simp add: loanHistoryOK_def)








lemma loans_Payment_save [simp]: "loans (Payment_save db p) = loans db"
  by (simp add: Payment_save_def)


lemma loans_Schedule_save [simp]: "loans (Schedule_save s db) = loans db"
  by (simp add: Schedule_save_def)

lemma loans_fold_Schedule_save [simp]: "loans (fold Schedule_save ss db) = loans db"
  by (induction ss arbitrary: db) simp_all

lemma loans_generateRepaymentSchedule [simp]: "loans (generateRepaymentSchedule db l now) = loans db"
  by (simp add: generateRepaymentSchedule_def)


lemma entryOK_legal: "(f, t) \<in> set spec_legalTransitions \<Longrightarrow>
  historyEntryOK \<lparr>fromStatus = Some f, toStatus = t, reason = r, performedBy = p, timestamp = n\<rparr>"
  by (simp add: historyEntryOK_def)






























section \<open>Refunds\<close>

lemma newObjectId_fresh: "i \<in> set ids \<Longrightarrow> i < newObjectId ids"
  by (induction ids) (auto simp: newObjectId_def)

lemma updateFirst_append_new:
  "\<forall>x \<in> set xs. \<not> P x \<Longrightarrow> P y \<Longrightarrow> updateFirst P f (xs @ [y]) = xs @ [f y]"
  by (induction xs) auto

lemma find_append_old: "find P xs = Some x \<Longrightarrow> find P (xs @ ys) = Some x"
  by (induction xs) (auto split: if_splits)

lemma find_append_new: "find P xs = None \<Longrightarrow> find P (xs @ [y]) = (if P y then Some y else None)"
  by (induction xs) (auto split: if_splits)

lemma Payment_create_ok:
  assumes "0 \<le> amt" "Payment_findByKey db key = None"
    and "\<forall>p \<in> set (payments db). reference p \<noteq> ref"
  shows "Payment_create db lid uid key ty amt ref st pop url mproof =
     Inr (db\<lparr>payments := payments db @ [newPayment db lid uid key ty amt ref st pop url mproof]\<rparr>,
          newPayment db lid uid key ty amt ref st pop url mproof)"
  using assms
  by (auto simp: Payment_create_def Payment_findByKey_def find_None_iff newPayment_def Let_def)

lemma Payment_save_new:
  assumes "payment_id p = newObjectId (map payment_id ps)"
  shows "updateFirst (\<lambda>q. payment_id q = payment_id p) (\<lambda>_. p') (ps @ [p]) = ps @ [p']"
proof -
  have "\<forall>x \<in> set ps. \<not> payment_id x = payment_id p"
    using newObjectId_fresh [of _ "map payment_id ps"] assms by fastforce
  then show ?thesis by (simp add: updateFirst_append_new)
qed

lemma find_None_mem: "find P xs = None \<Longrightarrow> x \<in> set xs \<Longrightarrow> \<not> P x"
  by (simp add: find_None_iff)

lemma processRefund_success:
  assumes k: "Payment_findByKey db key = None"
    and o: "Payment_findById db paymentId = Some orig"
    and s: "p_status orig = P_SUCCESS"
    and a: "0 \<le> p_amount orig"
    and r: "\<forall>p \<in> set (payments db). reference p \<noteq> ref"
    and t: "success tr"
  shows "processRefund db paymentId adminId rsn key ref now tr =
     (db\<lparr>payments := payments db @
            [(newPayment db (p_loanId orig) (p_userId orig) key REFUND (p_amount orig) ref
                P_PROCESSING None None None)
               \<lparr>p_status := P_SUCCESS, p_providerReference := tr_providerReference tr,
                reconciled := True, reconciledAt := Some now\<rparr>],
          loans := updateFirst (\<lambda>l. loan_id l = p_loanId orig)
                     (\<lambda>l. l\<lparr>totalRepaid := totalRepaid l + (- p_amount orig),
                             outstandingBalance := outstandingBalance l + p_amount orig\<rparr>)
                     (loans db)\<rparr>,
      Inr ((newPayment db (p_loanId orig) (p_userId orig) key REFUND (p_amount orig) ref
                P_PROCESSING None None None)
               \<lparr>p_status := P_SUCCESS, p_providerReference := tr_providerReference tr,
                reconciled := True, reconciledAt := Some now\<rparr>))"
proof -
  let ?np = "newPayment db (p_loanId orig) (p_userId orig) key REFUND (p_amount orig) ref
                P_PROCESSING None None None"
  let ?r1 = "?np\<lparr>p_status := P_SUCCESS, p_providerReference := tr_providerReference tr,
                reconciled := True, reconciledAt := Some now\<rparr>"
  have c: "Payment_create db (p_loanId orig) (p_userId orig) key REFUND (p_amount orig) ref
             P_PROCESSING None None None
           = Inr (db\<lparr>payments := payments db @ [?np]\<rparr>, ?np)"
    by (rule Payment_create_ok [OF a k r])
  have sv: "updateFirst (\<lambda>q. payment_id q = payment_id ?np) (\<lambda>_. p') (payments db @ [?np])
              = payments db @ [p']" for p'
    by (rule Payment_save_new) (simp add: newPayment_def)
  show ?thesis
    unfolding processRefund_def
    using k o s t
    by (simp add: c Let_def Payment_save_def Loan_findByIdAndUpdate_def sv)
qed


lemma processRefund_effect:
  assumes k: "Payment_findByKey db key = None"
    and o: "Payment_findById db paymentId = Some orig"
    and s: "p_status orig = P_SUCCESS"
    and a: "0 \<le> p_amount orig"
    and r: "\<forall>p \<in> set (payments db). reference p \<noteq> ref"
    and t: "success tr"
    and l: "Loan_findById db (p_loanId orig) = Some l"
  shows "\<not> isl (snd (processRefund db paymentId adminId rsn key ref now tr))"
    and "p_type (projr (snd (processRefund db paymentId adminId rsn key ref now tr))) = REFUND"
    and "p_status (projr (snd (processRefund db paymentId adminId rsn key ref now tr))) = P_SUCCESS"
    and "p_amount (projr (snd (processRefund db paymentId adminId rsn key ref now tr))) = p_amount orig"
    and "idempotencyKey (projr (snd (processRefund db paymentId adminId rsn key ref now tr))) = key"
    and "reference (projr (snd (processRefund db paymentId adminId rsn key ref now tr))) = ref"
    and "p_loanId (projr (snd (processRefund db paymentId adminId rsn key ref now tr))) = p_loanId orig"
    and "payment_id (projr (snd (processRefund db paymentId adminId rsn key ref now tr)))
           = newObjectId (map payment_id (payments db))"
    and "payments (fst (processRefund db paymentId adminId rsn key ref now tr))
           = payments db @ [projr (snd (processRefund db paymentId adminId rsn key ref now tr))]"
    and "Loan_findById (fst (processRefund db paymentId adminId rsn key ref now tr)) (p_loanId orig)
           = Some (l\<lparr>totalRepaid := totalRepaid l - p_amount orig,
                      outstandingBalance := outstandingBalance l + p_amount orig\<rparr>)"
proof -
  note e = processRefund_success [OF k o s a r t, of adminId rsn now]
  have f: "find (\<lambda>x. loan_id x = p_loanId orig) (loans db) = Some l"
    using l by (simp add: Loan_findById_def)
  have id: "loan_id l = p_loanId orig" using find_Some_mem [OF f] by simp
  show "\<not> isl (snd (processRefund db paymentId adminId rsn key ref now tr))"
    and "p_type (projr (snd (processRefund db paymentId adminId rsn key ref now tr))) = REFUND"
    and "p_status (projr (snd (processRefund db paymentId adminId rsn key ref now tr))) = P_SUCCESS"
    and "p_amount (projr (snd (processRefund db paymentId adminId rsn key ref now tr))) = p_amount orig"
    and "idempotencyKey (projr (snd (processRefund db paymentId adminId rsn key ref now tr))) = key"
    and "reference (projr (snd (processRefund db paymentId adminId rsn key ref now tr))) = ref"
    and "p_loanId (projr (snd (processRefund db paymentId adminId rsn key ref now tr))) = p_loanId orig"
    and "payment_id (projr (snd (processRefund db paymentId adminId rsn key ref now tr)))
           = newObjectId (map payment_id (payments db))"
    and "payments (fst (processRefund db paymentId adminId rsn key ref now tr))
           = payments db @ [projr (snd (processRefund db paymentId adminId rsn key ref now tr))]"
    unfolding e by (simp_all add: newPayment_def)
  show "Loan_findById (fst (processRefund db paymentId adminId rsn key ref now tr)) (p_loanId orig)
           = Some (l\<lparr>totalRepaid := totalRepaid l - p_amount orig,
                      outstandingBalance := outstandingBalance l + p_amount orig\<rparr>)"
    unfolding e
    using find_updateFirst [OF f, of "\<lambda>l. l\<lparr>totalRepaid := totalRepaid l + (- p_amount orig),
                             outstandingBalance := outstandingBalance l + p_amount orig\<rparr>"] id
    by (simp add: Loan_findById_def)
qed

text \<open>
  C10. \<open>processRefund\<close> asks only that the idempotency key is fresh and that the
  referenced payment exists with status success (the generated reference being new and
  the provider's transfer succeeding). It checks neither the payment's type nor any
  earlier refund of it: the call creates a success payment of type refund for the
  payment's amount, decreases the loan's \<open>totalRepaid\<close> and increases its
  \<open>outstandingBalance\<close> by that amount; a further call with a new key on the same
  payment does so again; and so does a call that names the refund payment itself.
\<close>

theorem C10_processRefund_unguarded:
  assumes "Payment_findByKey db key = None"
    and "Payment_findById db paymentId = Some orig"
    and "p_status orig = P_SUCCESS"
    and "0 \<le> p_amount orig"
    and "\<forall>p \<in> set (payments db). reference p \<noteq> ref"
    and "success tr"
    and "Loan_findById db (p_loanId orig) = Some l"
    and "Payment_findByKey db key2 = None" and "key2 \<noteq> key"
    and "\<forall>p \<in> set (payments db). reference p \<noteq> ref2" and "ref2 \<noteq> ref"
    and "success tr2"
  shows "\<not> isl (snd (processRefund db paymentId adminId rsn key ref now tr))
    \<and> p_type (projr (snd (processRefund db paymentId adminId rsn key ref now tr))) = REFUND
    \<and> p_status (projr (snd (processRefund db paymentId adminId rsn key ref now tr))) = P_SUCCESS
    \<and> p_amount (projr (snd (processRefund db paymentId adminId rsn key ref now tr))) = p_amount orig
    \<and> payments (fst (processRefund db paymentId adminId rsn key ref now tr))
         = payments db @ [projr (snd (processRefund db paymentId adminId rsn key ref now tr))]
    \<and> Loan_findById (fst (processRefund db paymentId adminId rsn key ref now tr)) (p_loanId orig)
         = Some (l\<lparr>totalRepaid := totalRepaid l - p_amount orig,
                    outstandingBalance := outstandingBalance l + p_amount orig\<rparr>)
    \<and> \<not> isl (snd (processRefund (fst (processRefund db paymentId adminId rsn key ref now tr))
                     paymentId adminId2 rsn2 key2 ref2 now2 tr2))
    \<and> p_status (projr (snd (processRefund (fst (processRefund db paymentId adminId rsn key ref now tr))
                     paymentId adminId2 rsn2 key2 ref2 now2 tr2))) = P_SUCCESS
    \<and> Loan_findById (fst (processRefund (fst (processRefund db paymentId adminId rsn key ref now tr))
                     paymentId adminId2 rsn2 key2 ref2 now2 tr2)) (p_loanId orig)
         = Some (l\<lparr>totalRepaid := totalRepaid l - p_amount orig - p_amount orig,
                    outstandingBalance := outstandingBalance l + p_amount orig + p_amount orig\<rparr>)
    \<and> \<not> isl (snd (processRefund (fst (processRefund db paymentId adminId rsn key ref now tr))
                     (payment_id (projr (snd (processRefund db paymentId adminId rsn key ref now tr))))
                     adminId2 rsn2 key2 ref2 now2 tr2))
    \<and> p_status (projr (snd (processRefund (fst (processRefund db paymentId adminId rsn key ref now tr))
                     (payment_id (projr (snd (processRefund db paymentId adminId rsn key ref now tr))))
                     adminId2 rsn2 key2 ref2 now2 tr2))) = P_SUCCESS
    \<and> Loan_findById (fst (processRefund (fst (processRefund db paymentId adminId rsn key ref now tr))
                     (payment_id (projr (snd (processRefund db paymentId adminId rsn key ref now tr))))
                     adminId2 rsn2 key2 ref2 now2 tr2)) (p_loanId orig)
         = Some (l\<lparr>totalRepaid := totalRepaid l - p_amount orig - p_amount orig,
                    outstandingBalance := outstandingBalance l + p_amount orig + p_amount orig\<rparr>)"
proof -
  let ?res = "processRefund db paymentId adminId rsn key ref now tr"
  let ?db1 = "fst ?res"
  let ?r1 = "projr (snd ?res)"
  let ?l1 = "l\<lparr>totalRepaid := totalRepaid l - p_amount orig,
               outstandingBalance := outstandingBalance l + p_amount orig\<rparr>"
  note e1 = processRefund_effect [OF assms(1-7), of adminId rsn now]
  have k2: "Payment_findByKey ?db1 key2 = None"
    using assms(8,9) e1(5) by (auto simp: Payment_findByKey_def e1(9) find_None_iff)
  have o2: "Payment_findById ?db1 paymentId = Some orig"
    using assms(2) by (simp add: Payment_findById_def e1(9) find_append_old)
  have r2: "\<forall>p \<in> set (payments ?db1). reference p \<noteq> ref2"
    using assms(10,11) e1(6) by (auto simp: e1(9))
  have l2: "Loan_findById ?db1 (p_loanId orig) = Some ?l1" by (rule e1(10))
  note e2 = processRefund_effect [OF k2 o2 assms(3,4) r2 assms(12) l2, of adminId2 rsn2 now2]
  have none: "find (\<lambda>p. payment_id p = payment_id ?r1) (payments db) = None"
    using newObjectId_fresh [of _ "map payment_id (payments db)"]
    by (fastforce simp: find_None_iff e1(8))
  have o3: "Payment_findById ?db1 (payment_id ?r1) = Some ?r1"
    by (simp add: Payment_findById_def e1(9) find_append_new [OF none])
  have a3: "0 \<le> p_amount ?r1" using assms(4) e1(4) by simp
  have l3: "Loan_findById ?db1 (p_loanId ?r1) = Some ?l1" using l2 e1(7) by simp
  note e3 = processRefund_effect [OF k2 o3 e1(3) a3 r2 assms(12) l3, of adminId2 rsn2 now2]
  show ?thesis
    using e1(1-4,9,10) e2(1,3,10) e3(1,3,10) e1(4,7) by simp
qed

end
